theory Spec2Isabelle
  imports Main
begin

section \<open>JavaScript values\<close>

text \<open>
  The library handles raw JSON payloads of type \<^verbatim>\<open>any\<close>. A value is one of the JavaScript
  value kinds a parsed payload or a property read can produce. Numbers are the integer
  valued ones (counts, durations, positions); objects are association lists of their own
  properties, the first binding of a key being the one a read returns.
\<close>

datatype jsval =
    JUndefined
  | JNull
  | JBool bool
  | JNum int
  | JStr string
  | JArr "jsval list"
  | JObj "(string \<times> jsval) list"

type_synonym obj = "(string \<times> jsval) list"

text \<open>Truthiness, as \<^verbatim>\<open>if (x)\<close>, \<^verbatim>\<open>!x\<close>, \<^verbatim>\<open>x || y\<close>, \<^verbatim>\<open>x ? a : b\<close> and \<^verbatim>\<open>Boolean(x)\<close> test it.\<close>

fun truthy :: "jsval \<Rightarrow> bool" where
  "truthy JUndefined = False"
| "truthy JNull = False"
| "truthy (JBool b) = b"
| "truthy (JNum n) = (n \<noteq> 0)"
| "truthy (JStr s) = (s \<noteq> [])"
| "truthy (JArr xs) = True"
| "truthy (JObj kvs) = True"

text \<open>\<^verbatim>\<open>x != null\<close>: the loose comparison, false for \<^verbatim>\<open>null\<close> and for \<^verbatim>\<open>undefined\<close>.\<close>

fun not_loose_null :: "jsval \<Rightarrow> bool" where
  "not_loose_null JUndefined = False"
| "not_loose_null JNull = False"
| "not_loose_null v = True"

datatype err =
    SpotifyAPIError string
  | TypeError
  | Rejected string

text \<open>
  \<^verbatim>\<open>SpotifyAPIError\<close> is the library's named error with its message, \<^verbatim>\<open>TypeError\<close> is what the
  runtime throws on a property read from \<^verbatim>\<open>null\<close> or \<^verbatim>\<open>undefined\<close>, and \<^verbatim>\<open>Rejected\<close> is a
  failure of the transport, which the library passes on unchanged.
\<close>

text \<open>
  The read \<^verbatim>\<open>v.k\<close>. It throws on \<^verbatim>\<open>null\<close> and \<^verbatim>\<open>undefined\<close>; on an object it yields the
  property, \<^verbatim>\<open>undefined\<close> when the object has none under that key. None of the keys this
  library reads is a member of a built-in prototype, so a read from a boolean, a number,
  a string or an array yields \<^verbatim>\<open>undefined\<close>.
\<close>

fun own :: "obj \<Rightarrow> string \<Rightarrow> jsval" where
  "own kvs k = (case map_of kvs k of None \<Rightarrow> JUndefined | Some v \<Rightarrow> v)"

fun prop_of :: "jsval \<Rightarrow> string \<Rightarrow> jsval" where
  "prop_of (JObj kvs) k = own kvs k"
| "prop_of v k = JUndefined"

fun get_prop :: "jsval \<Rightarrow> string \<Rightarrow> err + jsval" where
  "get_prop JUndefined k = Inl TypeError"
| "get_prop JNull k = Inl TypeError"
| "get_prop v k = Inr (prop_of v k)"

text \<open>\<^verbatim>\<open>k in v\<close>: a \<^verbatim>\<open>TypeError\<close> unless \<^verbatim>\<open>v\<close> is an object (an array is one).\<close>

fun has_key :: "string \<Rightarrow> jsval \<Rightarrow> err + bool" where
  "has_key k (JObj kvs) = Inr (k \<in> fst ` set kvs)"
| "has_key k (JArr xs) = Inr False"
| "has_key k v = Inl TypeError"

text \<open>\<^verbatim>\<open>ids.join(',')\<close>.\<close>

fun join :: "string \<Rightarrow> string list \<Rightarrow> string" where
  "join sep [] = []"
| "join sep [x] = x"
| "join sep (x # y # ys) = x @ sep @ join sep (y # ys)"

section \<open>The fetch collaborator\<close>

text \<open>
  \<^verbatim>\<open>client.fetch(path, options)\<close> belongs to the \<^verbatim>\<open>Client\<close>, which the manager receives. It is
  a parameter of every method here: given the path and the options object (\<^verbatim>\<open>undefined\<close>
  when the call passes none) it either resolves to a value or rejects.
\<close>

type_synonym fetcher = "string \<Rightarrow> jsval \<Rightarrow> err + jsval"

section \<open>UserClient: membership and library methods\<close>

definition followsArtists :: "fetcher \<Rightarrow> string list \<Rightarrow> err + jsval" where
  "followsArtists fetch ids =
     (case fetch ''/me/following/contains''
             (JObj [(''params'', JObj [(''type'', JStr ''artist''), (''ids'', JStr (join '','' ids))])]) of
        Inl e \<Rightarrow> Inl e
      | Inr x \<Rightarrow> Inr (if truthy x then x else JArr (map (\<lambda>_. JBool False) ids)))"

definition followsUsers :: "fetcher \<Rightarrow> string list \<Rightarrow> err + jsval" where
  "followsUsers fetch ids =
     (case fetch ''/me/following/contains''
             (JObj [(''params'', JObj [(''type'', JStr ''user''), (''ids'', JStr (join '','' ids))])]) of
        Inl e \<Rightarrow> Inl e
      | Inr x \<Rightarrow> Inr (if truthy x then x else JArr (map (\<lambda>_. JBool False) ids)))"

definition saveAlbums :: "fetcher \<Rightarrow> string list \<Rightarrow> err + bool" where
  "saveAlbums fetch ids =
     (case fetch ''/me/albums''
             (JObj [(''method'', JStr ''PUT''), (''params'', JObj [(''ids'', JStr (join '','' ids))])]) of
        Inl e \<Rightarrow> Inl e
      | Inr x \<Rightarrow> Inr (not_loose_null x))"

definition removeAlbums :: "fetcher \<Rightarrow> string list \<Rightarrow> err + bool" where
  "removeAlbums fetch ids =
     (case fetch ''/me/albums''
             (JObj [(''method'', JStr ''DELETE''), (''params'', JObj [(''ids'', JStr (join '','' ids))])]) of
        Inl e \<Rightarrow> Inl e
      | Inr x \<Rightarrow> Inr (not_loose_null x))"

definition hasAlbums :: "fetcher \<Rightarrow> string list \<Rightarrow> err + jsval" where
  "hasAlbums fetch ids =
     (case fetch ''/me/albums/contains'' (JObj [(''params'', JObj [(''ids'', JStr (join '','' ids))])]) of
        Inl e \<Rightarrow> Inl e
      | Inr x \<Rightarrow> Inr (JArr (map (\<lambda>_. JBool False) ids)))"

section \<open>UserClient: the current user's profile\<close>

text \<open>
  The fields of the class as what a read of each yields: \<^verbatim>\<open>undefined\<close> until assigned. The
  \<^verbatim>\<open>client\<close> field holds the collaborator, which the methods here take as the \<open>fetch\<close>
  parameter. The field \<^verbatim>\<open>id\<close> is written \<open>id'\<close>.
\<close>

record UserClient =
  displayName :: jsval
  id' :: jsval
  uri :: jsval
  type :: jsval
  images :: jsval
  totalFollowers :: jsval
  externalURL :: jsval
  product :: jsval
  country :: jsval
  email :: jsval
  explicitContent :: jsval

text \<open>\<^verbatim>\<open>new UserClient(client)\<close>: only the initialiser \<^verbatim>\<open>type = 'user'\<close> assigns a field.\<close>

definition UserClient_new :: UserClient where
  "UserClient_new =
     \<lparr>displayName = JUndefined, id' = JUndefined, uri = JUndefined, type = JStr ''user'',
      images = JUndefined, totalFollowers = JUndefined, externalURL = JUndefined,
      product = JUndefined, country = JUndefined, email = JUndefined,
      explicitContent = JUndefined\<rparr>"

text \<open>
  \<^verbatim>\<open>patchInfo\<close> assigns to \<^verbatim>\<open>this\<close> as it goes, so the result is the object as the call leaves
  it together with the outcome: \<open>None\<close> when it returns \<^verbatim>\<open>this\<close>, the error when it throws.
  Past the guard \<^verbatim>\<open>data\<close> is truthy, so its own properties are read with \<open>prop_of\<close>; the read
  \<^verbatim>\<open>data.followers.total\<close> can still throw.
\<close>

definition patchInfo :: "fetcher \<Rightarrow> UserClient \<Rightarrow> UserClient \<times> err option" where
  "patchInfo fetch this =
     (case fetch ''/me'' JUndefined of
        Inl e \<Rightarrow> (this, Some e)
      | Inr data \<Rightarrow>
          if \<not> truthy data
          then (this, Some (SpotifyAPIError
                  ''Could not load private user data from the user authorized token.''))
          else
            let this1 = this\<lparr>displayName := prop_of data ''display_name'',
                              id' := prop_of data ''id'',
                              uri := prop_of data ''uri'',
                              images := prop_of data ''images''\<rparr>
            in (case get_prop (prop_of data ''followers'') ''total'' of
                  Inl e \<Rightarrow> (this1, Some e)
                | Inr followers_total \<Rightarrow>
                    let this2 = this1\<lparr>totalFollowers := followers_total,
                                       externalURL := prop_of data ''external_urls'',
                                       email := prop_of data ''email'',
                                       product := prop_of data ''product'',
                                       country := prop_of data ''country''\<rparr>;
                        ec = prop_of data ''explicit_content''
                    in (if truthy ec
                        then this2\<lparr>explicitContent :=
                               JObj [(''filterEnabled'', prop_of ec ''filter_enabled''),
                                     (''filterLocked'', prop_of ec ''filter_locked'')]\<rparr>
                        else this2, None)))"

section \<open>The cache-aware factory\<close>

text \<open>
  Modelled from the spec: \<^verbatim>\<open>createCacheStructArray\<close> and \<^verbatim>\<open>createCacheSavedStructArray\<close> are
  imported from \<^verbatim>\<open>../Cache\<close>, and the structures they build from \<^verbatim>\<open>../structures\<close>; neither
  file is among the sources. The spec (4.2) gives the contract of the factory: given an
  entity type tag, a client/cache context and one raw item, return the cached instance
  if one is present under that ID, otherwise construct, store and return a new one; a
  constructed structure copies the fields of the raw item verbatim (3).

  Instances live in a store and are named by their address, so that "the same object"
  is equality of addresses. The cache maps a tag and an ID to an address.
\<close>

record struct =
  tag :: string
  ident :: jsval
  raw :: jsval

record cache_ctx =
  objects :: "struct list"
  cache :: "string \<times> jsval \<Rightarrow> nat option"

definition empty_ctx :: cache_ctx where
  "empty_ctx = \<lparr>objects = [], cache = (\<lambda>_. None)\<rparr>"

text \<open>
  Modelled from the spec: the structure classes of \<^verbatim>\<open>../structures\<close> (Playlist, Artist,
  Track, Album) are missing. A structure keeps its entity type tag, the ID of the raw
  item and the raw item itself, whose fields it copies verbatim (3).
\<close>

definition construct :: "string \<Rightarrow> jsval \<Rightarrow> struct" where
  "construct t item = \<lparr>tag = t, ident = prop_of item ''id'', raw = item\<rparr>"

text \<open>
  Modelled from the spec: the factory of \<^verbatim>\<open>../Cache\<close> is missing. It returns "an existing
  cached instance if present under that ID, otherwise construct, store, and return a new
  one" (4.2). The entity type tag selects the table of the context.
\<close>

definition createCacheStruct :: "string \<Rightarrow> cache_ctx \<Rightarrow> jsval \<Rightarrow> nat \<times> cache_ctx" where
  "createCacheStruct t c item =
     (case cache c (t, prop_of item ''id'') of
        Some r \<Rightarrow> (r, c)
      | None \<Rightarrow>
          (length (objects c),
           c\<lparr>objects := objects c @ [construct t item],
              cache := (cache c)((t, prop_of item ''id'') \<mapsto> length (objects c))\<rparr>))"

text \<open>
  Modelled from the spec: \<^verbatim>\<open>createCacheStructArray\<close> of \<^verbatim>\<open>../Cache\<close> is missing. A manager
  method is to "map each raw item through the corresponding DTO constructor (optionally
  through a cache-aware factory ...)" and "return the resulting array" (4.1): the items
  go through the factory in order, each call working on the context the one before left.
\<close>

fun createCacheStructs :: "string \<Rightarrow> cache_ctx \<Rightarrow> jsval list \<Rightarrow> nat list \<times> cache_ctx" where
  "createCacheStructs t c [] = ([], c)"
| "createCacheStructs t c (item # items) =
     (case createCacheStruct t c item of
        (r, c1) \<Rightarrow> (case createCacheStructs t c1 items of (rs, c2) \<Rightarrow> (r # rs, c2)))"

text \<open>
  Modelled from the spec: the argument is whatever the payload holds under \<^verbatim>\<open>items\<close>. The
  spec says nothing of a value that is not an array; mapping one throws, as a call of
  \<^verbatim>\<open>map\<close> on it does.
\<close>

fun createCacheStructArray :: "string \<Rightarrow> cache_ctx \<Rightarrow> jsval \<Rightarrow> err + nat list \<times> cache_ctx" where
  "createCacheStructArray t c (JArr items) = Inr (createCacheStructs t c items)"
| "createCacheStructArray t c v = Inl TypeError"

text \<open>The structure at an address.\<close>

definition deref :: "cache_ctx \<Rightarrow> nat \<Rightarrow> struct option" where
  "deref c r = (if r < length (objects c) then Some (objects c ! r) else None)"

text \<open>
  A well-formed context: every cache entry names a stored structure of that tag and ID.
  The empty context is well formed and the factory keeps contexts well formed.
\<close>

definition cache_ok :: "cache_ctx \<Rightarrow> bool" where
  "cache_ok c =
     (\<forall>t k r. cache c (t, k) = Some r \<longrightarrow>
        r < length (objects c) \<and> tag (objects c ! r) = t \<and> ident (objects c ! r) = k)"

section \<open>UserClient: list methods\<close>

text \<open>
  The options argument of a list method is an object (the default \<^verbatim>\<open>{}\<close> when the call
  passes none), given by its own properties. In \<^verbatim>\<open>{ type: 'artist', ...options }\<close> a key of
  \<^verbatim>\<open>options\<close> wins, which the first binding of the association list does.
\<close>

definition getPlaylists :: "fetcher \<Rightarrow> cache_ctx \<Rightarrow> obj \<Rightarrow> err + nat list \<times> cache_ctx" where
  "getPlaylists fetch c options =
     (case fetch ''/me/playlists'' (JObj [(''params'', JObj options)]) of
        Inl e \<Rightarrow> Inl e
      | Inr fetchedData \<Rightarrow>
          if truthy fetchedData
          then createCacheStructArray ''playlists'' c (prop_of fetchedData ''items'')
          else Inr ([], c))"

definition getFollowingArtists :: "fetcher \<Rightarrow> cache_ctx \<Rightarrow> obj \<Rightarrow> err + nat list \<times> cache_ctx" where
  "getFollowingArtists fetch c options =
     (case fetch ''/me/following''
             (JObj [(''params'', JObj (options @ [(''type'', JStr ''artist'')]))]) of
        Inl e \<Rightarrow> Inl e
      | Inr fetchedData \<Rightarrow>
          if truthy fetchedData
          then (case get_prop (prop_of fetchedData ''artists'') ''items'' of
                  Inl e \<Rightarrow> Inl e
                | Inr items \<Rightarrow> createCacheStructArray ''artists'' c items)
          else Inr ([], c))"

definition getTopTracks :: "fetcher \<Rightarrow> cache_ctx \<Rightarrow> obj \<Rightarrow> err + nat list \<times> cache_ctx" where
  "getTopTracks fetch c options =
     (case fetch ''/me/top/tracks''
             (JObj [(''params'', JObj [(''time_range'', own options ''timeRange''),
                                       (''limit'', own options ''limit''),
                                       (''offset'', own options ''offset'')])]) of
        Inl e \<Rightarrow> Inl e
      | Inr fetchedData \<Rightarrow>
          if truthy fetchedData
          then createCacheStructArray ''tracks'' c (prop_of fetchedData ''items'')
          else Inr ([], c))"

definition getTopArtists :: "fetcher \<Rightarrow> cache_ctx \<Rightarrow> obj \<Rightarrow> err + nat list \<times> cache_ctx" where
  "getTopArtists fetch c options =
     (case fetch ''/me/top/artists''
             (JObj [(''params'', JObj [(''time_range'', own options ''timeRange''),
                                       (''limit'', own options ''limit''),
                                       (''offset'', own options ''offset'')])]) of
        Inl e \<Rightarrow> Inl e
      | Inr fetchedData \<Rightarrow>
          if truthy fetchedData
          then createCacheStructArray ''artists'' c (prop_of fetchedData ''items'')
          else Inr ([], c))"

text \<open>
  \<^verbatim>\<open>getSavedAlbums\<close> maps the items through \<^verbatim>\<open>createCacheSavedStructArray\<close>, of which neither
  the sources nor the spec say more than its name: it is the parameter \<open>saved\<close>.
\<close>

definition getSavedAlbums ::
  "fetcher \<Rightarrow> (string \<Rightarrow> cache_ctx \<Rightarrow> jsval \<Rightarrow> err + 'a list \<times> cache_ctx) \<Rightarrow> cache_ctx \<Rightarrow> obj
     \<Rightarrow> err + 'a list \<times> cache_ctx" where
  "getSavedAlbums fetch saved c options =
     (case fetch ''/me/albums'' (JObj [(''params'', JObj options)]) of
        Inl e \<Rightarrow> Inl e
      | Inr fetchedData \<Rightarrow>
          if truthy fetchedData
          then saved ''albums'' c (prop_of fetchedData ''items'')
          else Inr ([], c))"

section \<open>Track structures\<close>

text \<open>
  The fields of each class as what a read of each yields, \<^verbatim>\<open>undefined\<close> for a field the
  constructor does not assign. The field \<^verbatim>\<open>id\<close> is written \<open>id'\<close>.
\<close>

record LinkedTrack =
  data :: jsval
  externalUrls :: jsval
  href :: jsval
  id' :: jsval
  type :: jsval
  uri :: jsval

text \<open>
  The first read, \<^verbatim>\<open>data.external_urls\<close>, throws when \<^verbatim>\<open>data\<close> is \<^verbatim>\<open>null\<close> or \<^verbatim>\<open>undefined\<close>; when
  it does not, no later read of \<^verbatim>\<open>data\<close> does.
\<close>

definition LinkedTrack_new :: "jsval \<Rightarrow> err + LinkedTrack" where
  "LinkedTrack_new d =
     (case get_prop d ''external_urls'' of
        Inl e \<Rightarrow> Inl e
      | Inr external_urls \<Rightarrow>
          Inr \<lparr>LinkedTrack.data = d,
               externalUrls = external_urls,
               href = prop_of d ''href'',
               id' = prop_of d ''id'',
               type = prop_of d ''type'',
               uri = prop_of d ''uri''\<rparr>)"

record Track =
  data :: jsval
  availableMarkets :: jsval
  discNumber :: jsval
  duration :: jsval
  explicit :: jsval
  externalIds :: jsval
  externalUrls :: jsval
  href :: jsval
  id' :: jsval
  name :: jsval
  popularity :: jsval
  previewUrl :: jsval
  trackNumber :: jsval
  type :: jsval
  uri :: jsval
  local :: jsval
  playable :: jsval
  linkedFrom :: jsval
  restrictions :: jsval
  codeImage :: jsval
  dominantColor :: jsval

text \<open>
  The first read, \<^verbatim>\<open>data.available_markets\<close>, throws when \<^verbatim>\<open>data\<close> is \<^verbatim>\<open>null\<close> or
  \<^verbatim>\<open>undefined\<close>; the last statement, \<^verbatim>\<open>'linked_from' in data\<close>, throws when \<^verbatim>\<open>data\<close> is not an
  object. A constructor that throws yields no object.
\<close>

definition Track_new :: "jsval \<Rightarrow> err + Track" where
  "Track_new d =
     (case get_prop d ''available_markets'' of
        Inl e \<Rightarrow> Inl e
      | Inr available_markets \<Rightarrow>
          (case has_key ''linked_from'' d of
             Inl e \<Rightarrow> Inl e
           | Inr linked \<Rightarrow>
               Inr \<lparr>Track.data = d,
                    availableMarkets = available_markets,
                    discNumber = prop_of d ''disc_number'',
                    duration = prop_of d ''duration_ms'',
                    explicit = prop_of d ''explicit'',
                    externalIds = prop_of d ''external_ids'',
                    externalUrls = prop_of d ''external_urls'',
                    href = prop_of d ''href'',
                    id' = prop_of d ''id'',
                    name = prop_of d ''name'',
                    popularity = prop_of d ''popularity'',
                    previewUrl = prop_of d ''preview_url'',
                    trackNumber = prop_of d ''track_number'',
                    type = prop_of d ''type'',
                    uri = prop_of d ''uri'',
                    local = JBool (truthy (prop_of d ''is_local'')),
                    playable = prop_of d ''is_playable'',
                    linkedFrom = (if linked then prop_of d ''linked_from'' else JUndefined),
                    restrictions = prop_of d ''restrictions'',
                    codeImage = JUndefined,
                    dominantColor = JUndefined\<rparr>))"

text \<open>
  The assignments of the two constructors as tables: the key read from \<^verbatim>\<open>data\<close> and the
  field it is assigned to.
\<close>

definition LinkedTrack_fields :: "(string \<times> (LinkedTrack \<Rightarrow> jsval)) list" where
  "LinkedTrack_fields =
     [(''external_urls'', LinkedTrack.externalUrls),
      (''href'', LinkedTrack.href),
      (''id'', LinkedTrack.id'),
      (''type'', LinkedTrack.type),
      (''uri'', LinkedTrack.uri)]"

definition Track_fields :: "(string \<times> (Track \<Rightarrow> jsval)) list" where
  "Track_fields =
     [(''available_markets'', availableMarkets),
      (''disc_number'', discNumber),
      (''duration_ms'', duration),
      (''explicit'', explicit),
      (''external_ids'', externalIds),
      (''external_urls'', Track.externalUrls),
      (''href'', Track.href),
      (''id'', Track.id'),
      (''name'', name),
      (''popularity'', popularity),
      (''preview_url'', previewUrl),
      (''track_number'', trackNumber),
      (''type'', Track.type),
      (''uri'', Track.uri),
      (''is_playable'', playable),
      (''restrictions'', restrictions),
      (''is_local'', local),
      (''linked_from'', linkedFrom)]"

text \<open>
  The accessor \<^verbatim>\<open>get album() { return new SimplifiedAlbum(this.album); }\<close>. Its argument is
  a read of the accessor itself. \<^verbatim>\<open>SimplifiedAlbum\<close> is imported from
  \<^verbatim>\<open>./SimplifiedAlbum\<close>, which is not among the sources, so its constructor is a parameter: it
  takes a value and yields an instance, itself a value, or throws. The result is \<open>None\<close>
  when the evaluation never returns.
\<close>

partial_function (option) album :: "(jsval \<Rightarrow> err + jsval) \<Rightarrow> Track \<Rightarrow> (err + jsval) option" where
  "album SimplifiedAlbum_new this =
     Option.bind (album SimplifiedAlbum_new this)
       (\<lambda>r. case r of Inl e \<Rightarrow> Some (Inl e) | Inr a \<Rightarrow> Some (SimplifiedAlbum_new a))"

text \<open>
  Two objects whose fields all differ, to tell the accessors of each class apart.
\<close>

definition LinkedTrack_probe :: LinkedTrack where
  "LinkedTrack_probe =
     \<lparr>LinkedTrack.data = JNum 0, externalUrls = JNum 1, href = JNum 2, id' = JNum 3,
      type = JNum 4, uri = JNum 5\<rparr>"

definition Track_probe :: Track where
  "Track_probe =
     \<lparr>Track.data = JNum 0, availableMarkets = JNum 1, discNumber = JNum 2, duration = JNum 3,
      explicit = JNum 4, externalIds = JNum 5, externalUrls = JNum 6, href = JNum 7,
      id' = JNum 8, name = JNum 9, popularity = JNum 10, previewUrl = JNum 11,
      trackNumber = JNum 12, type = JNum 13, uri = JNum 14, local = JNum 15,
      playable = JNum 16, linkedFrom = JNum 17, restrictions = JNum 18, codeImage = JNum 19,
      dominantColor = JNum 20\<rparr>"

section \<open>Membership and library methods\<close>

lemma hasAlbums_ignores_response:
  "fetch ''/me/albums/contains'' (JObj [(''params'', JObj [(''ids'', JStr (join '','' ids))])]) = Inr x
   \<Longrightarrow> hasAlbums fetch ids = Inr (JArr (replicate (length ids) (JBool False)))"
  by (simp add: hasAlbums_def map_replicate_const)

text \<open>
  C1. \<^verbatim>\<open>hasAlbums\<close> is to resolve to the server's membership flags, one per queried id. It
  does not: asked for one album that the server reports as saved (the response \<^verbatim>\<open>[true]\<close>),
  it resolves to \<^verbatim>\<open>[false]\<close>. The callback of \<^verbatim>\<open>then\<close> never uses the response.
\<close>

theorem hasAlbums_drops_flag:
  "hasAlbums (\<lambda>p opts. Inr (JArr [JBool True])) [''id1''] = Inr (JArr [JBool False])"
  by (simp add: hasAlbums_def)

text \<open>
  C2, as stated, fails: the length of the result is the length of the response, not the
  number of ids. Asked for two ids, with the fetch resolving to the one-element array
  \<^verbatim>\<open>[true]\<close>, both methods resolve to \<^verbatim>\<open>[true]\<close>, an array of one element.
\<close>

theorem follows_length_from_response:
  "followsArtists (\<lambda>p opts. Inr (JArr [JBool True])) [''a'', ''b''] = Inr (JArr [JBool True])
   \<and> followsUsers (\<lambda>p opts. Inr (JArr [JBool True])) [''a'', ''b''] = Inr (JArr [JBool True])
   \<and> length [JBool True] \<noteq> length [''a'', ''b'']"
  by (simp add: followsArtists_def followsUsers_def)

text \<open>
  C2, amended. \<^verbatim>\<open>followsArtists\<close> and \<^verbatim>\<open>followsUsers\<close>: when the fetch resolves to \<^verbatim>\<open>null\<close> the
  result is the all-false array with one element per queried id; when it resolves to an
  array of flags the result is that array unchanged, every flag at its position; so when
  the server reports one flag per queried id, the result has as many elements as there
  are ids and its \<open>i\<close>-th element is the flag of the \<open>i\<close>-th id. This holds for every list
  of ids, the empty one included.
\<close>

theorem follows_flags:
  assumes "fetch ''/me/following/contains''
             (JObj [(''params'', JObj [(''type'', JStr ''artist''), (''ids'', JStr (join '','' ids))])])
           = Inr ra"
      and "fetch ''/me/following/contains''
             (JObj [(''params'', JObj [(''type'', JStr ''user''), (''ids'', JStr (join '','' ids))])])
           = Inr ru"
  shows "(ra = JNull \<longrightarrow>
            followsArtists fetch ids = Inr (JArr (replicate (length ids) (JBool False))))
       \<and> (ru = JNull \<longrightarrow>
            followsUsers fetch ids = Inr (JArr (replicate (length ids) (JBool False))))
       \<and> (ra = JArr (map JBool fa) \<longrightarrow> followsArtists fetch ids = Inr (JArr (map JBool fa)))
       \<and> (ru = JArr (map JBool fu) \<longrightarrow> followsUsers fetch ids = Inr (JArr (map JBool fu)))
       \<and> (ra = JArr (map JBool fa) \<and> length fa = length ids \<longrightarrow>
            (\<exists>out. followsArtists fetch ids = Inr (JArr out) \<and> length out = length ids
                 \<and> (\<forall>i < length ids. out ! i = JBool (fa ! i))))
       \<and> (ru = JArr (map JBool fu) \<and> length fu = length ids \<longrightarrow>
            (\<exists>out. followsUsers fetch ids = Inr (JArr out) \<and> length out = length ids
                 \<and> (\<forall>i < length ids. out ! i = JBool (fu ! i))))"
  using assms by (simp add: followsArtists_def followsUsers_def map_replicate_const)

theorem follows_flags_witness:
  "followsArtists (\<lambda>p opts. Inr (JArr [JBool True, JBool False])) [''a'', ''b'']
     = Inr (JArr [JBool True, JBool False])
   \<and> followsUsers (\<lambda>p opts. Inr (JArr [JBool True, JBool False])) [''a'', ''b'']
     = Inr (JArr [JBool True, JBool False])
   \<and> followsArtists (\<lambda>p opts. Inr JNull) [''a'', ''b''] = Inr (JArr [JBool False, JBool False])
   \<and> followsUsers (\<lambda>p opts. Inr JNull) [''a'', ''b''] = Inr (JArr [JBool False, JBool False])"
  using follows_flags [of "\<lambda>p opts. Inr (JArr [JBool True, JBool False])" "[''a'', ''b'']"
          "JArr [JBool True, JBool False]" "JArr [JBool True, JBool False]"
          "[True, False]" "[True, False]"]
    follows_flags [of "\<lambda>p opts. Inr JNull" "[''a'', ''b'']" JNull JNull "[]" "[]"]
  by (simp del: ex_simps)

lemma not_loose_null_iff: "not_loose_null x \<longleftrightarrow> \<not> (x = JNull \<or> x = JUndefined)"
  by (cases x) simp_all

text \<open>
  C6. \<^verbatim>\<open>saveAlbums\<close> and \<^verbatim>\<open>removeAlbums\<close> resolve to the outcome of the test \<^verbatim>\<open>x != null\<close> on the
  response: false when it is \<^verbatim>\<open>null\<close> (or \<^verbatim>\<open>undefined\<close>, which no JSON payload is), true
  otherwise. So for a response that is a JSON payload or \<^verbatim>\<open>null\<close> the result is false
  exactly when the response is \<^verbatim>\<open>null\<close>, and true exactly when it is not. This holds for
  every list of ids.
\<close>

theorem albums_saved_removed:
  assumes "fetch ''/me/albums''
             (JObj [(''method'', JStr ''PUT''), (''params'', JObj [(''ids'', JStr (join '','' ids))])])
           = Inr rs"
      and "fetch ''/me/albums''
             (JObj [(''method'', JStr ''DELETE''), (''params'', JObj [(''ids'', JStr (join '','' ids))])])
           = Inr rr"
  shows "saveAlbums fetch ids = Inr (\<not> (rs = JNull \<or> rs = JUndefined))
       \<and> removeAlbums fetch ids = Inr (\<not> (rr = JNull \<or> rr = JUndefined))
       \<and> (rs \<noteq> JUndefined \<longrightarrow>
            (saveAlbums fetch ids = Inr False \<longleftrightarrow> rs = JNull)
            \<and> (saveAlbums fetch ids = Inr True \<longleftrightarrow> rs \<noteq> JNull))
       \<and> (rr \<noteq> JUndefined \<longrightarrow>
            (removeAlbums fetch ids = Inr False \<longleftrightarrow> rr = JNull)
            \<and> (removeAlbums fetch ids = Inr True \<longleftrightarrow> rr \<noteq> JNull))"
  using assms by (simp add: saveAlbums_def removeAlbums_def not_loose_null_iff)

theorem albums_saved_removed_witness:
  "saveAlbums (\<lambda>p opts. Inr JNull) [''id1'', ''id2''] = Inr False
   \<and> removeAlbums (\<lambda>p opts. Inr JNull) [''id1'', ''id2''] = Inr False
   \<and> saveAlbums (\<lambda>p opts. Inr (JStr [])) [''id1'', ''id2''] = Inr True
   \<and> removeAlbums (\<lambda>p opts. Inr (JStr [])) [''id1'', ''id2''] = Inr True"
  using albums_saved_removed [of "\<lambda>p opts. Inr JNull" "[''id1'', ''id2'']" JNull JNull]
    albums_saved_removed [of "\<lambda>p opts. Inr (JStr [])" "[''id1'', ''id2'']" "JStr []" "JStr []"]
  by simp

section \<open>The profile\<close>

lemma get_prop_throws: "get_prop v k = Inl e \<Longrightarrow> e = TypeError"
  by (cases v) simp_all

lemma patchInfo_payload:
  assumes "fetch ''/me'' JUndefined = Inr d" and "truthy d"
  shows "snd (patchInfo fetch this) = None \<or> snd (patchInfo fetch this) = Some TypeError"
proof (cases "get_prop (prop_of d ''followers'') ''total''")
  case (Inl e)
  then have "e = TypeError" by (rule get_prop_throws)
  with Inl assms show ?thesis by (simp add: patchInfo_def Let_def)
next
  case (Inr v)
  with assms show ?thesis by (simp add: patchInfo_def Let_def)
qed

lemma patchInfo_patches:
  assumes "fetch ''/me'' JUndefined = Inr (JObj kvs)" and "own kvs ''followers'' = JObj fs"
  shows "patchInfo fetch this =
     ((if truthy (own kvs ''explicit_content'')
       then \<lambda>u. u\<lparr>explicitContent :=
                    JObj [(''filterEnabled'', prop_of (own kvs ''explicit_content'') ''filter_enabled''),
                          (''filterLocked'', prop_of (own kvs ''explicit_content'') ''filter_locked'')]\<rparr>
       else (\<lambda>u. u))
        (this\<lparr>displayName := own kvs ''display_name'',
              UserClient.id' := own kvs ''id'',
              UserClient.uri := own kvs ''uri'',
              images := own kvs ''images'',
              totalFollowers := own fs ''total'',
              externalURL := own kvs ''external_urls'',
              email := own kvs ''email'',
              product := own kvs ''product'',
              country := own kvs ''country''\<rparr>),
      None)"
  using assms by (simp add: patchInfo_def Let_def del: own.simps)

lemma patchInfo_type: "UserClient.type (fst (patchInfo fetch this)) = UserClient.type this"
  by (simp add: patchInfo_def Let_def split: sum.splits)

text \<open>
  C3. When the fetch of \<^verbatim>\<open>/me\<close> resolves to \<^verbatim>\<open>null\<close>, \<^verbatim>\<open>patchInfo\<close> throws the
  \<^verbatim>\<open>SpotifyAPIError\<close> with its message, which is not empty, and leaves the object as it
  was. When the fetch resolves to a payload (a truthy value, as every object is) it
  throws no \<^verbatim>\<open>SpotifyAPIError\<close>, whatever the message.
\<close>

theorem patchInfo_domain_error:
  "(fetch ''/me'' JUndefined = Inr JNull \<longrightarrow>
      patchInfo fetch this =
        (this, Some (SpotifyAPIError
                 ''Could not load private user data from the user authorized token.''))
      \<and> ''Could not load private user data from the user authorized token.'' \<noteq> [])
   \<and> (fetch ''/me'' JUndefined = Inr d \<and> truthy d \<longrightarrow>
        (\<forall>m. snd (patchInfo fetch this) \<noteq> Some (SpotifyAPIError m)))
   \<and> (fetch ''/me'' JUndefined = Inr (JObj kvs) \<longrightarrow>
        (\<forall>m. snd (patchInfo fetch this) \<noteq> Some (SpotifyAPIError m)))"
proof (intro conjI impI allI)
  assume "fetch ''/me'' JUndefined = Inr JNull"
  then show "patchInfo fetch this =
        (this, Some (SpotifyAPIError
                 ''Could not load private user data from the user authorized token.''))"
    by (simp add: patchInfo_def)
next
  show "''Could not load private user data from the user authorized token.'' \<noteq> []" by simp
next
  fix m assume "fetch ''/me'' JUndefined = Inr d \<and> truthy d"
  then show "snd (patchInfo fetch this) \<noteq> Some (SpotifyAPIError m)"
    using patchInfo_payload [of fetch d this] by auto
next
  fix m assume "fetch ''/me'' JUndefined = Inr (JObj kvs)"
  then show "snd (patchInfo fetch this) \<noteq> Some (SpotifyAPIError m)"
    using patchInfo_payload [of fetch "JObj kvs" this] by auto
qed

theorem patchInfo_domain_error_witness:
  "patchInfo (\<lambda>p opts. Inr JNull) UserClient_new
     = (UserClient_new,
        Some (SpotifyAPIError ''Could not load private user data from the user authorized token.''))
   \<and> snd (patchInfo
            (\<lambda>p opts. Inr (JObj [(''id'', JStr ''u1''), (''followers'', JObj [(''total'', JNum 3)])]))
            UserClient_new) \<noteq> Some (SpotifyAPIError ''x'')"
  using patchInfo_domain_error [of "\<lambda>p opts. Inr JNull" UserClient_new JNull "[]"]
    patchInfo_domain_error [of
       "\<lambda>p opts. Inr (JObj [(''id'', JStr ''u1''), (''followers'', JObj [(''total'', JNum 3)])])"
       UserClient_new "JObj [(''id'', JStr ''u1''), (''followers'', JObj [(''total'', JNum 3)])]"
       "[(''id'', JStr ''u1''), (''followers'', JObj [(''total'', JNum 3)])]"]
  by simp

section \<open>List methods\<close>

text \<open>
  C5. Each list method resolves to the empty array, and leaves the cache context as it
  was, when its fetch resolves to \<^verbatim>\<open>null\<close>; it does not throw. This holds for every options
  object.
\<close>

theorem list_methods_null:
  "(fetch ''/me/playlists'' (JObj [(''params'', JObj options)]) = Inr JNull \<longrightarrow>
      getPlaylists fetch c options = Inr ([], c))
   \<and> (fetch ''/me/following'' (JObj [(''params'', JObj (options @ [(''type'', JStr ''artist'')]))])
        = Inr JNull \<longrightarrow>
      getFollowingArtists fetch c options = Inr ([], c))
   \<and> (fetch ''/me/top/tracks''
         (JObj [(''params'', JObj [(''time_range'', own options ''timeRange''),
                                   (''limit'', own options ''limit''),
                                   (''offset'', own options ''offset'')])]) = Inr JNull \<longrightarrow>
      getTopTracks fetch c options = Inr ([], c))
   \<and> (fetch ''/me/top/artists''
         (JObj [(''params'', JObj [(''time_range'', own options ''timeRange''),
                                   (''limit'', own options ''limit''),
                                   (''offset'', own options ''offset'')])]) = Inr JNull \<longrightarrow>
      getTopArtists fetch c options = Inr ([], c))
   \<and> (fetch ''/me/albums'' (JObj [(''params'', JObj options)]) = Inr JNull \<longrightarrow>
      getSavedAlbums fetch saved c options = Inr ([], c))"
  by (simp add: getPlaylists_def getFollowingArtists_def getTopTracks_def getTopArtists_def
      getSavedAlbums_def)

theorem list_methods_null_witness:
  "getPlaylists (\<lambda>p opts. Inr JNull) empty_ctx [(''limit'', JNum 5)] = Inr ([], empty_ctx)
   \<and> getFollowingArtists (\<lambda>p opts. Inr JNull) empty_ctx [(''limit'', JNum 5)] = Inr ([], empty_ctx)
   \<and> getTopTracks (\<lambda>p opts. Inr JNull) empty_ctx [(''limit'', JNum 5)] = Inr ([], empty_ctx)
   \<and> getTopArtists (\<lambda>p opts. Inr JNull) empty_ctx [(''limit'', JNum 5)] = Inr ([], empty_ctx)
   \<and> getSavedAlbums (\<lambda>p opts. Inr JNull) (\<lambda>t c v. Inl TypeError) empty_ctx [(''limit'', JNum 5)]
       = (Inr ([], empty_ctx) :: err + nat list \<times> cache_ctx)"
  using list_methods_null [of "\<lambda>p opts. Inr JNull" "[(''limit'', JNum 5)]" empty_ctx
      "\<lambda>t c v. Inl TypeError :: err + nat list \<times> cache_ctx"]
  by simp

section \<open>The cache-aware factory and the playlists scenario\<close>

lemma cache_ok_empty: "cache_ok empty_ctx"
  by (simp add: cache_ok_def empty_ctx_def)

lemma createCacheStruct_hit:
  "cache c (t, prop_of item ''id'') = Some r \<Longrightarrow> createCacheStruct t c item = (r, c)"
  by (simp add: createCacheStruct_def)

lemma createCacheStruct_miss:
  "cache c (t, prop_of item ''id'') = None \<Longrightarrow>
   createCacheStruct t c item =
     (length (objects c),
      c\<lparr>objects := objects c @ [construct t item],
         cache := (cache c)((t, prop_of item ''id'') \<mapsto> length (objects c))\<rparr>)"
  by (simp add: createCacheStruct_def)

lemma createCacheStruct_step:
  assumes ok: "cache_ok c" and run: "createCacheStruct t c item = (r, c1)"
  shows "cache_ok c1"
    and "cache c1 (t, prop_of item ''id'') = Some r"
    and "\<And>k r'. cache c k = Some r' \<Longrightarrow> cache c1 k = Some r'"
proof -
  show "cache_ok c1"
  proof (cases "cache c (t, prop_of item ''id'')")
    case None
    with run have c1: "c1 = c\<lparr>objects := objects c @ [construct t item],
         cache := (cache c)((t, prop_of item ''id'') \<mapsto> length (objects c))\<rparr>"
      by (auto simp: createCacheStruct_miss)
    show ?thesis
      unfolding cache_ok_def
    proof (intro allI impI)
      fix t' k r' assume hit: "cache c1 (t', k) = Some r'"
      show "r' < length (objects c1) \<and> tag (objects c1 ! r') = t' \<and> ident (objects c1 ! r') = k"
      proof (cases "(t', k) = (t, prop_of item ''id'')")
        case True
        with hit c1 have "r' = length (objects c)" by simp
        with True c1 show ?thesis by (simp add: construct_def)
      next
        case False
        with hit c1 have "cache c (t', k) = Some r'" by (simp split: if_splits)
        with ok have "r' < length (objects c) \<and> tag (objects c ! r') = t' \<and> ident (objects c ! r') = k"
          by (simp add: cache_ok_def)
        with c1 show ?thesis by (simp add: nth_append)
      qed
    qed
  next
    case (Some r0)
    with run ok show ?thesis by (simp add: createCacheStruct_hit)
  qed
  show "cache c1 (t, prop_of item ''id'') = Some r"
    using run by (cases "cache c (t, prop_of item ''id'')") (auto simp: createCacheStruct_def)
  show "\<And>k r'. cache c k = Some r' \<Longrightarrow> cache c1 k = Some r'"
    using run by (cases "cache c (t, prop_of item ''id'')") (auto simp: createCacheStruct_def)
qed

lemma createCacheStructs_run:
  assumes "cache_ok c" and "createCacheStructs t c items = (rs, c')"
  shows "cache_ok c' \<and> length rs = length items
       \<and> (\<forall>i < length items. cache c' (t, prop_of (items ! i) ''id'') = Some (rs ! i))
       \<and> (\<forall>k r. cache c k = Some r \<longrightarrow> cache c' k = Some r)"
  using assms
proof (induction items arbitrary: c rs c')
  case Nil
  then show ?case by simp
next
  case (Cons item items)
  obtain r c1 where one: "createCacheStruct t c item = (r, c1)"
    by (cases "createCacheStruct t c item")
  obtain rs1 c2 where rest: "createCacheStructs t c1 items = (rs1, c2)"
    by (cases "createCacheStructs t c1 items")
  from Cons.prems(2) one rest have eq: "rs = r # rs1" "c' = c2" by simp_all
  note step = createCacheStruct_step [OF Cons.prems(1) one]
  from Cons.IH [OF step(1) rest]
  have ih: "cache_ok c2" "length rs1 = length items"
    "\<forall>i < length items. cache c2 (t, prop_of (items ! i) ''id'') = Some (rs1 ! i)"
    "\<forall>k r. cache c1 k = Some r \<longrightarrow> cache c2 k = Some r"
    by simp_all
  have head: "cache c2 (t, prop_of item ''id'') = Some r"
    using ih(4) step(2) by blast
  have keep: "\<forall>k r. cache c k = Some r \<longrightarrow> cache c2 k = Some r"
    using ih(4) step(3) by blast
  have nth: "\<forall>i < length (item # items). cache c2 (t, prop_of ((item # items) ! i) ''id'') = Some ((r # rs1) ! i)"
  proof (intro allI impI)
    fix i assume "i < length (item # items)"
    then show "cache c2 (t, prop_of ((item # items) ! i) ''id'') = Some ((r # rs1) ! i)"
      using head ih(3) by (cases i) simp_all
  qed
  from ih(1,2) nth keep eq show ?case by simp
qed

lemma cache_ok_deref:
  "cache_ok c \<Longrightarrow> cache c (t, k) = Some r \<Longrightarrow>
   \<exists>s. deref c r = Some s \<and> tag s = t \<and> ident s = k"
  by (simp add: cache_ok_def deref_def)

lemma createCacheStructArray_ok:
  "cache_ok c \<Longrightarrow> createCacheStructArray t c v = Inr (rs, c') \<Longrightarrow> cache_ok c'"
  using createCacheStructs_run [of c t _ rs c'] by (cases v) auto

lemma list_methods_keep_cache_ok:
  assumes "cache_ok c"
  shows "getPlaylists fetch c options = Inr (rs, c') \<Longrightarrow> cache_ok c'"
    and "getFollowingArtists fetch c options = Inr (rs, c') \<Longrightarrow> cache_ok c'"
    and "getTopTracks fetch c options = Inr (rs, c') \<Longrightarrow> cache_ok c'"
    and "getTopArtists fetch c options = Inr (rs, c') \<Longrightarrow> cache_ok c'"
  using assms
  by (auto simp: getPlaylists_def getFollowingArtists_def getTopTracks_def getTopArtists_def
      split: sum.splits if_splits dest: createCacheStructArray_ok)

text \<open>
  C9. In a well-formed context, among the calls of the factory that map a list of items
  of one entity type, two calls whose items have the same ID return the same address
  (one object), and two calls whose items have different IDs return different addresses.
  A single call returns the cached address, and changes nothing, when the ID is cached;
  otherwise it returns an address not in use before, at which the newly constructed
  structure is stored, and caches it under the ID.
\<close>

theorem factory_identity:
  assumes "cache_ok c" and "createCacheStructs t c items = (rs, c')"
    and "i < length items" and "j < length items"
  shows "(prop_of (items ! i) ''id'' = prop_of (items ! j) ''id'' \<longrightarrow> rs ! i = rs ! j)
       \<and> (prop_of (items ! i) ''id'' \<noteq> prop_of (items ! j) ''id'' \<longrightarrow> rs ! i \<noteq> rs ! j)
       \<and> (case cache c (t, prop_of x ''id'') of
            Some r \<Rightarrow> createCacheStruct t c x = (r, c)
          | None \<Rightarrow>
              (case createCacheStruct t c x of
                 (r, c1) \<Rightarrow> deref c r = None \<and> deref c1 r = Some (construct t x)
                            \<and> cache c1 (t, prop_of x ''id'') = Some r))"
proof -
  from createCacheStructs_run [OF assms(1,2)]
  have ok': "cache_ok c'"
    and at: "\<forall>n < length items. cache c' (t, prop_of (items ! n) ''id'') = Some (rs ! n)"
    by simp_all
  from at assms(3,4)
  have ci: "cache c' (t, prop_of (items ! i) ''id'') = Some (rs ! i)"
    and cj: "cache c' (t, prop_of (items ! j) ''id'') = Some (rs ! j)"
    by simp_all
  have same: "prop_of (items ! i) ''id'' = prop_of (items ! j) ''id'' \<longrightarrow> rs ! i = rs ! j"
    using ci cj by auto
  have diff: "prop_of (items ! i) ''id'' \<noteq> prop_of (items ! j) ''id'' \<longrightarrow> rs ! i \<noteq> rs ! j"
  proof (intro impI notI)
    assume ne: "prop_of (items ! i) ''id'' \<noteq> prop_of (items ! j) ''id''" and eq: "rs ! i = rs ! j"
    from ok' ci have "ident (objects c' ! (rs ! i)) = prop_of (items ! i) ''id''"
      by (simp add: cache_ok_def)
    moreover from ok' cj have "ident (objects c' ! (rs ! j)) = prop_of (items ! j) ''id''"
      by (simp add: cache_ok_def)
    ultimately show False using ne eq by simp
  qed
  have one: "case cache c (t, prop_of x ''id'') of
            Some r \<Rightarrow> createCacheStruct t c x = (r, c)
          | None \<Rightarrow>
              (case createCacheStruct t c x of
                 (r, c1) \<Rightarrow> deref c r = None \<and> deref c1 r = Some (construct t x)
                            \<and> cache c1 (t, prop_of x ''id'') = Some r)"
    by (simp add: createCacheStruct_def deref_def split: option.splits)
  from same diff one show ?thesis by blast
qed

theorem factory_identity_witness:
  "fst (createCacheStructs ''playlists'' empty_ctx
          [JObj [(''id'', JStr ''a1'')], JObj [(''id'', JStr ''a2'')], JObj [(''id'', JStr ''a1'')]])
     = [0, 1, 0]
   \<and> createCacheStruct ''playlists'' empty_ctx (JObj [(''id'', JStr ''a1'')])
     = (0, \<lparr>objects = [construct ''playlists'' (JObj [(''id'', JStr ''a1'')])],
            cache = (\<lambda>_. None)((''playlists'', JStr ''a1'') \<mapsto> 0)\<rparr>)"
proof -
  let ?items = "[JObj [(''id'', JStr ''a1'')], JObj [(''id'', JStr ''a2'')], JObj [(''id'', JStr ''a1'')]]"
  let ?c' = "\<lparr>objects = [construct ''playlists'' (JObj [(''id'', JStr ''a1'')]),
                        construct ''playlists'' (JObj [(''id'', JStr ''a2'')])],
             cache = (\<lambda>_. None)((''playlists'', JStr ''a1'') \<mapsto> 0,
                                  (''playlists'', JStr ''a2'') \<mapsto> (1::nat))\<rparr>"
  have ok: "cache_ok empty_ctx" by (simp add: cache_ok_def empty_ctx_def)
  have run: "createCacheStructs ''playlists'' empty_ctx ?items = ([0, 1, 0], ?c')"
    by (simp add: createCacheStruct_def empty_ctx_def)
  from factory_identity [OF ok run, of 0 2 "JObj [(''id'', JStr ''a1'')]"]
    factory_identity [OF ok run, of 0 1 "JObj [(''id'', JStr ''a1'')]"] run
  show ?thesis by (simp add: createCacheStruct_def empty_ctx_def)
qed

text \<open>
  C4. In a well-formed context, when the fetch of \<^verbatim>\<open>/me/playlists\<close> resolves to an object
  whose \<^verbatim>\<open>items\<close> is a list of two items with the IDs \<^verbatim>\<open>'a1'\<close> and \<^verbatim>\<open>'a2'\<close>, \<^verbatim>\<open>getPlaylists\<close>
  resolves to exactly two structures, whose IDs are \<^verbatim>\<open>'a1'\<close> and \<^verbatim>\<open>'a2'\<close> in that order.
\<close>

theorem getPlaylists_two_items:
  assumes "cache_ok c"
    and "fetch ''/me/playlists'' (JObj [(''params'', JObj options)]) = Inr (JObj kvs)"
    and "own kvs ''items'' = JArr [x1, x2]"
    and "prop_of x1 ''id'' = JStr ''a1''" and "prop_of x2 ''id'' = JStr ''a2''"
  shows "\<exists>r1 r2 c' s1 s2. getPlaylists fetch c options = Inr ([r1, r2], c')
           \<and> deref c' r1 = Some s1 \<and> ident s1 = JStr ''a1''
           \<and> deref c' r2 = Some s2 \<and> ident s2 = JStr ''a2''"
proof -
  obtain rs c' where run: "createCacheStructs ''playlists'' c [x1, x2] = (rs, c')"
    by (cases "createCacheStructs ''playlists'' c [x1, x2]")
  from createCacheStructs_run [OF assms(1) run]
  have ok': "cache_ok c'" and len: "length rs = 2"
    and at: "\<forall>n < 2. cache c' (''playlists'', prop_of ([x1, x2] ! n) ''id'') = Some (rs ! n)"
    by simp_all
  from len obtain r1 r2 where rs: "rs = [r1, r2]"
    by (cases rs; cases "tl rs") auto
  from at [rule_format, of 0] rs assms(4) have h1: "cache c' (''playlists'', JStr ''a1'') = Some r1"
    by simp
  from at [rule_format, of 1] rs assms(5) have h2: "cache c' (''playlists'', JStr ''a2'') = Some r2"
    by simp
  from cache_ok_deref [OF ok' h1] obtain s1 where s1: "deref c' r1 = Some s1" "ident s1 = JStr ''a1''"
    by blast
  from cache_ok_deref [OF ok' h2] obtain s2 where s2: "deref c' r2 = Some s2" "ident s2 = JStr ''a2''"
    by blast
  have "getPlaylists fetch c options = Inr ([r1, r2], c')"
    using assms(2,3) run rs by (simp add: getPlaylists_def)
  with s1 s2 show ?thesis by blast
qed

theorem getPlaylists_two_items_witness:
  "getPlaylists
     (\<lambda>p opts. Inr (JObj [(''items'', JArr [JObj [(''id'', JStr ''a1'')], JObj [(''id'', JStr ''a2'')]])]))
     empty_ctx []
   = Inr ([0, 1],
        \<lparr>objects = [construct ''playlists'' (JObj [(''id'', JStr ''a1'')]),
                    construct ''playlists'' (JObj [(''id'', JStr ''a2'')])],
         cache = (\<lambda>_. None)((''playlists'', JStr ''a1'') \<mapsto> 0, (''playlists'', JStr ''a2'') \<mapsto> 1)\<rparr>)"
proof -
  have ok: "cache_ok empty_ctx" by (simp add: cache_ok_def empty_ctx_def)
  from getPlaylists_two_items [OF ok, of
      "\<lambda>p opts. Inr (JObj [(''items'', JArr [JObj [(''id'', JStr ''a1'')], JObj [(''id'', JStr ''a2'')]])])"
      "[]" "[(''items'', JArr [JObj [(''id'', JStr ''a1'')], JObj [(''id'', JStr ''a2'')]])]"
      "JObj [(''id'', JStr ''a1'')]" "JObj [(''id'', JStr ''a2'')]"]
  obtain r1 r2 c' where "getPlaylists
     (\<lambda>p opts. Inr (JObj [(''items'', JArr [JObj [(''id'', JStr ''a1'')], JObj [(''id'', JStr ''a2'')]])]))
     empty_ctx [] = Inr ([r1, r2], c')"
    by auto
  then show ?thesis
    by (simp add: getPlaylists_def createCacheStruct_def empty_ctx_def)
qed

section \<open>The track constructors\<close>

lemma Track_fields_keys: "distinct (map fst Track_fields)"
  by (simp add: Track_fields_def)

lemma Track_fields_accessors: "distinct (map snd Track_fields)"
proof -
  have "distinct (map (\<lambda>f. f Track_probe) (map snd Track_fields))"
    by (simp add: Track_fields_def Track_probe_def)
  then show ?thesis by (simp only: distinct_map)
qed

lemma LinkedTrack_fields_keys: "distinct (map fst LinkedTrack_fields)"
  by (simp add: LinkedTrack_fields_def)

lemma LinkedTrack_fields_accessors: "distinct (map snd LinkedTrack_fields)"
proof -
  have "distinct (map (\<lambda>f. f LinkedTrack_probe) (map snd LinkedTrack_fields))"
    by (simp add: LinkedTrack_fields_def LinkedTrack_probe_def)
  then show ?thesis by (simp only: distinct_map)
qed

lemma own_absent: "k \<notin> fst ` set kvs \<Longrightarrow> own kvs k = JUndefined"
  by (simp add: map_of_eq_None_iff [THEN iffD2])

lemma Track_new_obj:
  "Track_new (JObj kvs) =
     Inr \<lparr>Track.data = JObj kvs,
          availableMarkets = own kvs ''available_markets'',
          discNumber = own kvs ''disc_number'',
          duration = own kvs ''duration_ms'',
          explicit = own kvs ''explicit'',
          externalIds = own kvs ''external_ids'',
          externalUrls = own kvs ''external_urls'',
          href = own kvs ''href'',
          id' = own kvs ''id'',
          name = own kvs ''name'',
          popularity = own kvs ''popularity'',
          previewUrl = own kvs ''preview_url'',
          trackNumber = own kvs ''track_number'',
          type = own kvs ''type'',
          uri = own kvs ''uri'',
          local = JBool (truthy (own kvs ''is_local'')),
          playable = own kvs ''is_playable'',
          linkedFrom = own kvs ''linked_from'',
          restrictions = own kvs ''restrictions'',
          codeImage = JUndefined,
          dominantColor = JUndefined\<rparr>"
proof (cases "''linked_from'' \<in> fst ` set kvs")
  case True
  then show ?thesis by (simp add: Track_new_def del: own.simps)
next
  case False
  then have "own kvs ''linked_from'' = JUndefined" by (rule own_absent)
  with False show ?thesis by (simp add: Track_new_def del: own.simps)
qed

lemma LinkedTrack_new_obj:
  "LinkedTrack_new (JObj kvs) =
     Inr \<lparr>LinkedTrack.data = JObj kvs,
          externalUrls = own kvs ''external_urls'',
          href = own kvs ''href'',
          id' = own kvs ''id'',
          type = own kvs ''type'',
          uri = own kvs ''uri''\<rparr>"
  by (simp add: LinkedTrack_new_def del: own.simps)


text \<open>
  C7, as stated, fails: a raw track without the key \<^verbatim>\<open>is_local\<close> gives a \<^verbatim>\<open>Track\<close> whose
  \<^verbatim>\<open>local\<close> is \<^verbatim>\<open>false\<close>, while the value of the key is \<^verbatim>\<open>undefined\<close>.
\<close>

theorem Track_local_not_preserved:
  "map_sum id local (Track_new (JObj [(''id'', JStr ''t1'')])) = Inr (JBool False)
   \<and> prop_of (JObj [(''id'', JStr ''t1'')]) ''is_local'' = JUndefined"
  by (simp add: Track_new_def)

text \<open>
  C7, amended. For every raw input object both constructors succeed. Every field of a
  \<^verbatim>\<open>LinkedTrack\<close>, and every mapped field of a \<^verbatim>\<open>Track\<close> other than \<^verbatim>\<open>local\<close>, equals the value
  of its input key; \<^verbatim>\<open>local\<close> is the Boolean coercion of the value of \<^verbatim>\<open>is_local\<close>, and equals
  it when that value is a boolean. The tables of keys and fields are one-to-one: no key
  and no field occurs twice.
\<close>

theorem constructors_preserve_fields:
  "(case LinkedTrack_new (JObj kvs) of
      Inl e \<Rightarrow> False
    | Inr l \<Rightarrow> (\<forall>(k, f) \<in> set LinkedTrack_fields. f l = prop_of (JObj kvs) k))
   \<and> (case Track_new (JObj kvs) of
        Inl e \<Rightarrow> False
      | Inr t \<Rightarrow>
          (\<forall>(k, f) \<in> set Track_fields. k \<noteq> ''is_local'' \<longrightarrow> f t = prop_of (JObj kvs) k)
          \<and> local t = JBool (truthy (prop_of (JObj kvs) ''is_local''))
          \<and> (\<forall>b. prop_of (JObj kvs) ''is_local'' = JBool b \<longrightarrow>
                local t = prop_of (JObj kvs) ''is_local''))
   \<and> distinct (map fst LinkedTrack_fields) \<and> distinct (map snd LinkedTrack_fields)
   \<and> distinct (map fst Track_fields) \<and> distinct (map snd Track_fields)"
proof -
  have l: "case LinkedTrack_new (JObj kvs) of
      Inl e \<Rightarrow> False
    | Inr l \<Rightarrow> (\<forall>(k, f) \<in> set LinkedTrack_fields. f l = prop_of (JObj kvs) k)"
    by (simp add: LinkedTrack_new_obj LinkedTrack_fields_def del: own.simps)
  have t: "case Track_new (JObj kvs) of
        Inl e \<Rightarrow> False
      | Inr t \<Rightarrow>
          (\<forall>(k, f) \<in> set Track_fields. k \<noteq> ''is_local'' \<longrightarrow> f t = prop_of (JObj kvs) k)
          \<and> local t = JBool (truthy (prop_of (JObj kvs) ''is_local''))
          \<and> (\<forall>b. prop_of (JObj kvs) ''is_local'' = JBool b \<longrightarrow>
                local t = prop_of (JObj kvs) ''is_local'')"
    by (simp add: Track_new_obj Track_fields_def del: own.simps)
  from l t Track_fields_keys Track_fields_accessors LinkedTrack_fields_keys
    LinkedTrack_fields_accessors
  show ?thesis by blast
qed

theorem constructors_preserve_fields_witness:
  "map_sum id duration
     (Track_new (JObj [(''id'', JStr ''t1''), (''duration_ms'', JNum 1000), (''is_local'', JBool True)]))
     = Inr (JNum 1000)
   \<and> map_sum id local
     (Track_new (JObj [(''id'', JStr ''t1''), (''duration_ms'', JNum 1000), (''is_local'', JBool True)]))
     = Inr (JBool True)
   \<and> map_sum id LinkedTrack.id'
     (LinkedTrack_new (JObj [(''id'', JStr ''t1''), (''duration_ms'', JNum 1000), (''is_local'', JBool True)]))
     = Inr (JStr ''t1'')"
  using constructors_preserve_fields
    [of "[(''id'', JStr ''t1''), (''duration_ms'', JNum 1000), (''is_local'', JBool True)]"]
  by (simp add: Track_new_def LinkedTrack_new_def)

lemma own_unfold: "(case map_of kvs k of None \<Rightarrow> JUndefined | Some v \<Rightarrow> v) = own kvs k"
  by simp

lemma own_truthy_unfold:
  "(case map_of kvs k of None \<Rightarrow> JBool False | Some v \<Rightarrow> JBool (truthy v))
     = JBool (truthy (own kvs k))"
  by (simp split: option.splits)

text \<open>
  C8, as stated, fails: a raw track without the key \<^verbatim>\<open>is_local\<close> gives a \<^verbatim>\<open>Track\<close> whose
  \<^verbatim>\<open>local\<close> is \<^verbatim>\<open>false\<close>, neither \<^verbatim>\<open>null\<close> nor \<^verbatim>\<open>undefined\<close>.
\<close>

theorem Track_local_absent_is_false:
  "map_sum id local (Track_new (JObj [(''name'', JStr ''n'')])) = Inr (JBool False)
   \<and> map_of [(''name'', JStr ''n'')] ''is_local'' = None"
  by (simp add: Track_new_def)

text \<open>
  C8, amended. For every raw input object both constructors succeed and keep the input
  itself as \<^verbatim>\<open>data\<close>. Every field of a \<^verbatim>\<open>LinkedTrack\<close>, and every mapped field of a \<^verbatim>\<open>Track\<close>
  other than \<^verbatim>\<open>local\<close>, is the value of its key when the input has the key and \<^verbatim>\<open>undefined\<close>
  when it has not; \<^verbatim>\<open>local\<close> is the Boolean coercion of the value when the input has
  \<^verbatim>\<open>is_local\<close> and \<^verbatim>\<open>false\<close> when it has not; \<^verbatim>\<open>codeImage\<close> and \<^verbatim>\<open>dominantColor\<close> are
  \<^verbatim>\<open>undefined\<close>. The \<^verbatim>\<open>type\<close> of a new \<^verbatim>\<open>UserClient\<close> is \<^verbatim>\<open>'user'\<close>, and \<^verbatim>\<open>patchInfo\<close> leaves
  \<^verbatim>\<open>type\<close> as it is.
\<close>

theorem constructors_copy_or_undefined:
  "(case LinkedTrack_new (JObj kvs) of
      Inl e \<Rightarrow> False
    | Inr l \<Rightarrow>
        LinkedTrack.data l = JObj kvs
        \<and> (\<forall>(k, f) \<in> set LinkedTrack_fields.
              f l = (case map_of kvs k of Some v \<Rightarrow> v | None \<Rightarrow> JUndefined)))
   \<and> (case Track_new (JObj kvs) of
        Inl e \<Rightarrow> False
      | Inr t \<Rightarrow>
          Track.data t = JObj kvs
          \<and> (\<forall>(k, f) \<in> set Track_fields. k \<noteq> ''is_local'' \<longrightarrow>
                f t = (case map_of kvs k of Some v \<Rightarrow> v | None \<Rightarrow> JUndefined))
          \<and> local t = (case map_of kvs ''is_local'' of
                         Some v \<Rightarrow> JBool (truthy v)
                       | None \<Rightarrow> JBool False)
          \<and> codeImage t = JUndefined \<and> dominantColor t = JUndefined)
   \<and> UserClient.type UserClient_new = JStr ''user''
   \<and> UserClient.type (fst (patchInfo fetch u)) = UserClient.type u"
proof -
  have l: "case LinkedTrack_new (JObj kvs) of
      Inl e \<Rightarrow> False
    | Inr l \<Rightarrow>
        LinkedTrack.data l = JObj kvs
        \<and> (\<forall>(k, f) \<in> set LinkedTrack_fields.
              f l = (case map_of kvs k of Some v \<Rightarrow> v | None \<Rightarrow> JUndefined))"
    by (simp add: LinkedTrack_new_obj LinkedTrack_fields_def own_unfold del: own.simps)
  have t: "case Track_new (JObj kvs) of
        Inl e \<Rightarrow> False
      | Inr t \<Rightarrow>
          Track.data t = JObj kvs
          \<and> (\<forall>(k, f) \<in> set Track_fields. k \<noteq> ''is_local'' \<longrightarrow>
                f t = (case map_of kvs k of Some v \<Rightarrow> v | None \<Rightarrow> JUndefined))
          \<and> local t = (case map_of kvs ''is_local'' of
                         Some v \<Rightarrow> JBool (truthy v)
                       | None \<Rightarrow> JBool False)
          \<and> codeImage t = JUndefined \<and> dominantColor t = JUndefined"
    by (simp add: Track_new_obj Track_fields_def own_unfold own_truthy_unfold del: own.simps)
  have u: "UserClient.type UserClient_new = JStr ''user''"
    by (simp add: UserClient_new_def)
  from l t u patchInfo_type [of fetch u] show ?thesis by blast
qed

theorem constructors_copy_or_undefined_witness:
  "map_sum id name (Track_new (JObj [(''name'', JStr ''n''), (''is_local'', JNum 1)])) = Inr (JStr ''n'')
   \<and> map_sum id Track.uri (Track_new (JObj [(''name'', JStr ''n''), (''is_local'', JNum 1)]))
       = Inr JUndefined
   \<and> map_sum id local (Track_new (JObj [(''name'', JStr ''n''), (''is_local'', JNum 1)]))
       = Inr (JBool True)
   \<and> map_sum id LinkedTrack.uri (LinkedTrack_new (JObj [(''name'', JStr ''n''), (''is_local'', JNum 1)]))
       = Inr JUndefined
   \<and> UserClient.type (fst (patchInfo (\<lambda>p opts. Inr (JObj [(''type'', JStr ''other'')])) UserClient_new))
       = JStr ''user''"
  using constructors_copy_or_undefined
    [of "[(''name'', JStr ''n''), (''is_local'', JNum 1)]"
        "\<lambda>p opts. Inr (JObj [(''type'', JStr ''other'')])" UserClient_new]
  by (simp add: Track_new_def LinkedTrack_new_def)

section \<open>The album accessor\<close>

lemma album_no_value: "album mk t = Some y \<Longrightarrow> False"
proof (rule album.raw_induct [where P = "\<lambda>_ _ _. False"])
  fix f :: "(jsval \<Rightarrow> err + jsval) \<Rightarrow> Track \<Rightarrow> (err + jsval) option" and mk' this r
  assume ih: "\<And>m b y. f m b = Some y \<Longrightarrow> False"
    and step: "Option.bind (f mk' this)
       (\<lambda>r. case r of Inl e \<Rightarrow> Some (Inl e) | Inr a \<Rightarrow> Some (mk' a)) = Some r"
  from step obtain x where "f mk' this = Some x"
    by (auto simp: bind_eq_Some_conv)
  with ih show False by blast
qed

text \<open>
  C10. The \<^verbatim>\<open>album\<close> accessor is to return a \<^verbatim>\<open>SimplifiedAlbum\<close> built from the track's album
  data. It returns nothing, for every track and every \<^verbatim>\<open>SimplifiedAlbum\<close> constructor: its
  argument \<^verbatim>\<open>this.album\<close> is the accessor itself, so the evaluation never reaches the
  constructor.
\<close>

theorem album_never_returns: "album SimplifiedAlbum_new this = None"
  using album_no_value [of SimplifiedAlbum_new this]
  by (cases "album SimplifiedAlbum_new this") auto

theorem album_never_returns_witness:
  "(case Track_new (JObj [(''id'', JStr ''t1''), (''album'', JObj [(''id'', JStr ''al1'')])]) of
      Inl e \<Rightarrow> None
    | Inr t \<Rightarrow> Some (album Inr t)) = Some None"
  using album_never_returns [of Inr]
  by (simp add: Track_new_def)

end
